theory Spec2Isabelle
  imports Complex_Main "HOL-Library.Sublist"
begin

section \<open>The Wallbox charger device: data\<close>

text \<open>
  The embedding follows \<^verbatim>\<open>drivers/wallbox/device.js\<close>. Conventions:
  \<^item> a JavaScript number is a \<^typ>\<open>real\<close>: arithmetic is exact, and rounding, NaN and
    the infinities are outside the model;
  \<^item> the charger snapshot has the types of the data model: numbers, a boolean
    \<^verbatim>\<open>locked\<close> (so \<^verbatim>\<open>Boolean(...)\<close> changes nothing), and a user id that is
    given as the string \<^verbatim>\<open>toString()\<close> makes of it. The user id and name may be
    \<^verbatim>\<open>null\<close> (\<open>None\<close>) and the \<^verbatim>\<open>config_data\<close> block may be absent; reading
    a property of an absent value throws a TypeError;
  \<^item> a capability holds \<^verbatim>\<open>null\<close> (\<open>None\<close>) until it is first set, and afterwards a
    value of its declared type (number, boolean or string), so the store of the host is one
    map per type and \<^verbatim>\<open>getCapabilityValue(name)\<close> is the lookup in the map of that
    type; \<^verbatim>\<open>!==\<close> between values of one type is \<open>\<noteq>\<close>;
  \<^item> a rejected promise or a thrown exception is an \<open>error\<close> value returned next to
    the device state reached when it was raised; the calls of the host
    (\<^verbatim>\<open>setCapabilityValue\<close>, \<^verbatim>\<open>setAvailable\<close>, \<^verbatim>\<open>setUnavailable\<close>,
    \<^verbatim>\<open>driver.trigger\<close>) do not fail, and take effect in program order;
  \<^item> logging is left out.
\<close>

datatype error = FetchError | TypeError

text \<open>
  One call of \<^verbatim>\<open>setCapabilityValue(name, value)\<close>, by the type of the value. A string
  capability can be set to \<^verbatim>\<open>null\<close> (\<open>None\<close>).
\<close>

datatype capability_write =
    NumberWrite string real
  | BooleanWrite string bool
  | StringWrite string "string option"

record config =
  locked :: bool
  max_available_current :: real
  max_charging_current :: real
  energy_price :: real

record stats =
  status_id :: int
  charging_power :: real
  added_energy :: real
  user_id :: "string option"
  user_name :: "string option"
  config_data :: "config option"

text \<open>One entry of \<^verbatim>\<open>sessions['data']\<close>: its \<^verbatim>\<open>attributes\<close>.\<close>

record session =
  charger :: string
  energy :: "real option"

text \<open>
  The device: its id, the capability store of the host (one map per declared capability
  type), the availability flag, and the two sinks the code writes to: the log of
  \<^verbatim>\<open>setCapabilityValue\<close> calls and the log of \<^verbatim>\<open>driver.trigger\<close> calls.
\<close>

record device =
  device_id :: string
  numberCaps :: "string \<Rightarrow> real option"
  booleanCaps :: "string \<Rightarrow> bool option"
  stringCaps :: "string \<Rightarrow> string option"
  available :: bool
  writes :: "capability_write list"
  triggers :: "(string \<times> (string \<times> string option) list) list"

section \<open>The host's capability store and sinks\<close>

definition setCapabilityValue_number :: "string \<Rightarrow> real \<Rightarrow> device \<Rightarrow> device" where
  "setCapabilityValue_number capabilityName v s =
     s\<lparr>numberCaps := (numberCaps s)(capabilityName := Some v),
       writes := writes s @ [NumberWrite capabilityName v]\<rparr>"

definition setCapabilityValue_boolean :: "string \<Rightarrow> bool \<Rightarrow> device \<Rightarrow> device" where
  "setCapabilityValue_boolean capabilityName v s =
     s\<lparr>booleanCaps := (booleanCaps s)(capabilityName := Some v),
       writes := writes s @ [BooleanWrite capabilityName v]\<rparr>"

definition setCapabilityValue_string :: "string \<Rightarrow> string option \<Rightarrow> device \<Rightarrow> device" where
  "setCapabilityValue_string capabilityName v s =
     s\<lparr>stringCaps := (stringCaps s)(capabilityName := v),
       writes := writes s @ [StringWrite capabilityName v]\<rparr>"

definition setUnavailable :: "device \<Rightarrow> device" where
  "setUnavailable s = s\<lparr>available := False\<rparr>"

definition setAvailable :: "device \<Rightarrow> device" where
  "setAvailable s = s\<lparr>available := True\<rparr>"

definition trigger :: "string \<Rightarrow> (string \<times> string option) list \<Rightarrow> device \<Rightarrow> device" where
  "trigger name tokens s = s\<lparr>triggers := triggers s @ [(name, tokens)]\<rparr>"

text \<open>
  \<open>ToNumber\<close> of a value that is \<^verbatim>\<open>null\<close> or a number: \<^verbatim>\<open>null\<close> counts as 0 in
  \<^verbatim>\<open><\<close>, \<^verbatim>\<open>-\<close> and \<^verbatim>\<open>+\<close>.
\<close>

fun ToNumber :: "real option \<Rightarrow> real" where
  "ToNumber None = 0"
| "ToNumber (Some r) = r"

section \<open>The poll cycle\<close>

text \<open>
  \<^verbatim>\<open>status_util.getStatus\<close> (the status table of \<^verbatim>\<open>lib/statuses\<close>) is a parameter
  \<open>getStatus\<close> of every function that names a status.
\<close>

definition getChargerStatusName :: "(int \<Rightarrow> string) \<Rightarrow> stats \<Rightarrow> string" where
  "getChargerStatusName getStatus st = getStatus (status_id st)"

text \<open>
  \<open>getChargerStatus\<close> is the outcome of \<^verbatim>\<open>this._api.getChargerStatus(this._id)\<close> in this
  cycle: \<open>Inl\<close> when the promise rejects.
\<close>

definition retrieveChargerStats :: "error + stats \<Rightarrow> device \<Rightarrow> device \<times> stats option" where
  "retrieveChargerStats getChargerStatus s =
     (case getChargerStatus of
        Inr st \<Rightarrow> (s, Some st)
      | Inl e \<Rightarrow> (setUnavailable s, None))"

definition checkDeviceAvailability :: "(int \<Rightarrow> string) \<Rightarrow> stats \<Rightarrow> device \<Rightarrow> device" where
  "checkDeviceAvailability getStatus st s =
     (let newStatus = getChargerStatusName getStatus st in
      if newStatus = ''Disconnected'' \<or> newStatus = ''Error''
      then setUnavailable s
      else setAvailable s)"

definition triggerStatusChange :: "string option \<Rightarrow> string \<Rightarrow> device \<Rightarrow> device" where
  "triggerStatusChange oldStatus newStatus s =
     (let tokens = [(''oldStatus'', oldStatus), (''status'', Some newStatus)];
          s1 = trigger ''status_changed'' tokens s
      in if newStatus = ''Error'' \<or> newStatus = ''Updating'' then s1
         else
           let s2 = (if oldStatus = Some ''Charging'' then trigger ''charging_ended'' [] s1
                     else if oldStatus = Some ''Ready'' then trigger ''car_connected'' [] s1
                     else s1)
           in if newStatus = ''Charging'' then trigger ''charging_started'' [] s2
              else if newStatus = ''Ready'' then trigger ''car_unplugged'' [] s2
              else s2)"

definition whenChangedSetAndTriggerStatus :: "(int \<Rightarrow> string) \<Rightarrow> stats \<Rightarrow> device \<Rightarrow> device" where
  "whenChangedSetAndTriggerStatus getStatus st s =
     (let oldStatus = stringCaps s ''status'';
          newStatus = getChargerStatusName getStatus st
      in if oldStatus \<noteq> Some newStatus
         then triggerStatusChange oldStatus newStatus (setCapabilityValue_string ''status'' (Some newStatus) s)
         else s)"

text \<open>
  \<^verbatim>\<open>whenChangedSetCapabilityValue\<close>, once per declared capability type. The string one
  takes \<^verbatim>\<open>null\<close> too: \<^verbatim>\<open>user_name\<close> may be \<^verbatim>\<open>null\<close> in the snapshot.
\<close>

definition whenChangedSetCapabilityValue_number :: "string \<Rightarrow> real \<Rightarrow> device \<Rightarrow> device" where
  "whenChangedSetCapabilityValue_number capabilityName currentCapabilityValue s =
     (let oldCapabilityValue = numberCaps s capabilityName in
      if Some currentCapabilityValue \<noteq> oldCapabilityValue
      then setCapabilityValue_number capabilityName currentCapabilityValue s
      else s)"

definition whenChangedSetCapabilityValue_boolean :: "string \<Rightarrow> bool \<Rightarrow> device \<Rightarrow> device" where
  "whenChangedSetCapabilityValue_boolean capabilityName currentCapabilityValue s =
     (let oldCapabilityValue = booleanCaps s capabilityName in
      if Some currentCapabilityValue \<noteq> oldCapabilityValue
      then setCapabilityValue_boolean capabilityName currentCapabilityValue s
      else s)"

definition whenChangedSetCapabilityValue_string :: "string \<Rightarrow> string option \<Rightarrow> device \<Rightarrow> device" where
  "whenChangedSetCapabilityValue_string capabilityName currentCapabilityValue s =
     (let oldCapabilityValue = stringCaps s capabilityName in
      if currentCapabilityValue \<noteq> oldCapabilityValue
      then setCapabilityValue_string capabilityName currentCapabilityValue s
      else s)"

text \<open>
  The loop of \<^verbatim>\<open>retrieveEnergyHistoricalTotal\<close>, with \<open>totalEnergy\<close> as the
  accumulator.
\<close>

fun sumSessions :: "string \<Rightarrow> real \<Rightarrow> session list \<Rightarrow> real" where
  "sumSessions devId totalEnergy [] = totalEnergy"
| "sumSessions devId totalEnergy (x # xs) =
     sumSessions devId
       (if charger x = devId \<and> energy x \<noteq> None then totalEnergy + the (energy x)
        else totalEnergy) xs"

text \<open>
  \<open>getSessionsList\<close> is the outcome of \<^verbatim>\<open>this._api.getSessionsList()\<close>: \<open>Inl\<close> when
  the promise rejects, \<open>Inr None\<close> when the response has no \<^verbatim>\<open>data\<close> (iterating
  \<^verbatim>\<open>undefined\<close> throws a TypeError), \<open>Inr (Some xs)\<close> otherwise. \<open>devId\<close> is
  \<^verbatim>\<open>this._id\<close>. The function returns a number or throws: the test
  \<^verbatim>\<open>totalEnergy !== undefined\<close> of its caller \<^verbatim>\<open>whenChangedSetTotalEnergy\<close> always
  holds, and is not written out there.
\<close>

definition retrieveEnergyHistoricalTotal ::
    "error + session list option \<Rightarrow> string \<Rightarrow> error + real" where
  "retrieveEnergyHistoricalTotal getSessionsList devId =
     (case getSessionsList of
        Inl e \<Rightarrow> Inl e
      | Inr None \<Rightarrow> Inl TypeError
      | Inr (Some sessions) \<Rightarrow> Inr (sumSessions devId 0 sessions))"

definition whenChangedSetTotalEnergy ::
    "error + session list option \<Rightarrow> real \<Rightarrow> real option \<Rightarrow> device \<Rightarrow> device \<times> error option" where
  "whenChangedSetTotalEnergy getSessionsList currentSessionEnergySupplied
       oldSessionEnergySupplied s =
     (case retrieveEnergyHistoricalTotal getSessionsList (device_id s) of
        Inl e \<Rightarrow> (s, Some e)
      | Inr totalEnergy \<Rightarrow>
          if currentSessionEnergySupplied + totalEnergy
               \<noteq> ToNumber oldSessionEnergySupplied + totalEnergy
          then (setCapabilityValue_number ''meter_power'' (totalEnergy + currentSessionEnergySupplied) s, None)
          else (s, None))"

definition whenChangedSetSessionCost :: "real \<Rightarrow> real option \<Rightarrow> real \<Rightarrow> device \<Rightarrow> device" where
  "whenChangedSetSessionCost currentSessionEnergySupplied oldSessionEnergySupplied energyCost s =
     (let oldSessionCost = numberCaps s ''meter_session_cost'';
          sessionCost =
            (if currentSessionEnergySupplied < ToNumber oldSessionEnergySupplied
                \<or> currentSessionEnergySupplied = 0
             then currentSessionEnergySupplied * energyCost
             else ToNumber oldSessionCost
                    + (currentSessionEnergySupplied - ToNumber oldSessionEnergySupplied)
                      * energyCost)
      in if oldSessionCost \<noteq> Some sessionCost
         then setCapabilityValue_number ''meter_session_cost'' sessionCost s
         else s)"

definition whenChangedSetCapabilities ::
    "(int \<Rightarrow> string) \<Rightarrow> error + session list option \<Rightarrow> stats \<Rightarrow> device
       \<Rightarrow> device \<times> error option" where
  "whenChangedSetCapabilities getStatus getSessionsList st s =
     (case config_data st of
        None \<Rightarrow> (s, Some TypeError)
      | Some cfg \<Rightarrow>
          let isLocked = locked cfg;
              s1 = whenChangedSetCapabilityValue_boolean ''locked'' isLocked s;
              newStatus = getChargerStatusName getStatus st;
              isOnOff = (newStatus \<noteq> ''Paused'');
              s2 = whenChangedSetCapabilityValue_boolean ''onoff'' isOnOff s1;
              maxAvailableCurrent = max_available_current cfg;
              s3 = whenChangedSetCapabilityValue_number ''maximum_available_current'' maxAvailableCurrent s2;
              chargingPowerInW = charging_power st * 1000;
              s4 = whenChangedSetCapabilityValue_number ''measure_power'' chargingPowerInW s3;
              oldSessionEnergySupplied = numberCaps s4 ''meter_power_session'';
              sessionEnergySupplied = added_energy st;
              energyCost = energy_price cfg
          in case whenChangedSetTotalEnergy getSessionsList sessionEnergySupplied
                    oldSessionEnergySupplied s4 of
               (s5, Some e) \<Rightarrow> (s5, Some e)
             | (s5, None) \<Rightarrow>
                 let s6 = whenChangedSetSessionCost sessionEnergySupplied
                            oldSessionEnergySupplied energyCost s5;
                     s7 = whenChangedSetCapabilityValue_number ''meter_power_session'' sessionEnergySupplied s6;
                     s8 = whenChangedSetCapabilityValue_number ''measure_energy_cost'' energyCost s7;
                     maxChargingCurrent = max_charging_current cfg;
                     s9 = whenChangedSetCapabilityValue_number ''measure_maximum_charging_current''
                            maxChargingCurrent s8
                 in case user_id st of
                      None \<Rightarrow> (s9, Some TypeError)
                    | Some userId \<Rightarrow>
                        let s10 = whenChangedSetCapabilityValue_string ''user_id'' (Some userId) s9;
                            userName = user_name st;
                            s11 = whenChangedSetCapabilityValue_string ''user_name'' userName s10
                        in (s11, None))"

definition poll ::
    "(int \<Rightarrow> string) \<Rightarrow> error + stats \<Rightarrow> error + session list option \<Rightarrow> device
       \<Rightarrow> device \<times> error option" where
  "poll getStatus getChargerStatus getSessionsList s =
     (case retrieveChargerStats getChargerStatus s of
        (s1, None) \<Rightarrow> (s1, None)
      | (s1, Some st) \<Rightarrow>
          let s2 = checkDeviceAvailability getStatus st s1;
              s3 = whenChangedSetAndTriggerStatus getStatus st s2
          in whenChangedSetCapabilities getStatus getSessionsList st s3)"

section \<open>The poll scheduler\<close>

text \<open>
  The timers of the host and the setting \<^verbatim>\<open>polling\<close>, as far as
  \<^verbatim>\<open>setupDevicePollingAndDoFirstPoll\<close> and \<^verbatim>\<open>onSettings\<close> use them. Time is
  counted in milliseconds. An interval timer is (handle, period, time since it last fired);
  \<open>pollCalls\<close> counts the calls of \<^verbatim>\<open>this.poll\<close>, by the code or by a timer.
  \<open>polling\<close> is \<^verbatim>\<open>this.polling\<close>, the handle kept by the device.
  \<^verbatim>\<open>clearTimeout\<close> cancels an interval timer as well (the runtime keeps one table
  of timers).
\<close>

record scheduler =
  setting_polling :: "nat option"
  polling :: "nat option"
  timers :: "(nat \<times> nat \<times> nat) list"
  nextHandle :: nat
  pollCalls :: nat

definition POLL_INTERVAL :: nat where
  "POLL_INTERVAL = 10"

text \<open>
  The delay a timer really gets. \<open>None\<close> is NaN (\<^verbatim>\<open>1000 * undefined\<close>); for NaN and
  outside 1 .. 2147483647 the runtime takes 1.
\<close>

fun timerDelay :: "nat option \<Rightarrow> nat" where
  "timerDelay None = 1"
| "timerDelay (Some ms) = (if ms < 1 \<or> 2147483647 < ms then 1 else ms)"

definition setInterval :: "nat option \<Rightarrow> scheduler \<Rightarrow> nat \<times> scheduler" where
  "setInterval ms sch =
     (nextHandle sch,
      sch\<lparr>timers := timers sch @ [(nextHandle sch, timerDelay ms, 0)],
          nextHandle := Suc (nextHandle sch)\<rparr>)"

definition clearTimeout :: "nat option \<Rightarrow> scheduler \<Rightarrow> scheduler" where
  "clearTimeout handle sch =
     sch\<lparr>timers := filter (\<lambda>(h, period, since). Some h \<noteq> handle) (timers sch)\<rparr>"

definition callPoll :: "scheduler \<Rightarrow> scheduler" where
  "callPoll sch = sch\<lparr>pollCalls := Suc (pollCalls sch)\<rparr>"

text \<open>
  The code does not await \<^verbatim>\<open>setSettings({polling: POLL_INTERVAL})\<close>, so what
  \<^verbatim>\<open>getSetting('polling')\<close> returns on the next line is up to the host.
  \<open>settingsAtOnce\<close> says whether the host stores the setting before \<^verbatim>\<open>setSettings\<close>
  returns; \<open>getSetting_polling\<close> is the value the code then reads back, given the value
  \<open>p\<close> the setting had (\<open>None\<close>: not set). A write of the host that lands later is not
  followed.
\<close>

definition getSetting_polling :: "bool \<Rightarrow> nat option \<Rightarrow> nat option" where
  "getSetting_polling settingsAtOnce p =
     (if (p = None \<or> p = Some 0) \<and> settingsAtOnce then Some POLL_INTERVAL else p)"

definition setupDevicePollingAndDoFirstPoll :: "bool \<Rightarrow> scheduler \<Rightarrow> scheduler" where
  "setupDevicePollingAndDoFirstPoll settingsAtOnce sch =
     (let sch1 = sch\<lparr>setting_polling :=
                       getSetting_polling settingsAtOnce (setting_polling sch)\<rparr>;
          (handle, sch2) = setInterval (map_option (\<lambda>p. 1000 * p) (setting_polling sch1)) sch1;
          sch3 = sch2\<lparr>polling := Some handle\<rparr>
      in callPoll sch3)"

definition onSettings :: "nat \<Rightarrow> scheduler \<Rightarrow> scheduler" where
  "onSettings newPolling sch =
     (let sch1 = clearTimeout (polling sch) sch;
          (handle, sch2) = setInterval (Some (1000 * newPolling)) sch1
      in sch2\<lparr>polling := Some handle\<rparr>)"

text \<open>
  \<open>elapse d\<close>: \<open>d\<close> milliseconds pass. Every active interval timer fires once per
  full period, and each firing calls \<^verbatim>\<open>this.poll\<close>.
\<close>

fun firings :: "nat \<Rightarrow> (nat \<times> nat \<times> nat) list \<Rightarrow> nat" where
  "firings d [] = 0"
| "firings d ((h, period, since) # ts) = (since + d) div period + firings d ts"

fun advance :: "nat \<Rightarrow> (nat \<times> nat \<times> nat) list \<Rightarrow> (nat \<times> nat \<times> nat) list" where
  "advance d [] = []"
| "advance d ((h, period, since) # ts) = (h, period, (since + d) mod period) # advance d ts"

definition elapse :: "nat \<Rightarrow> scheduler \<Rightarrow> scheduler" where
  "elapse d sch =
     sch\<lparr>timers := advance d (timers sch),
         pollCalls := pollCalls sch + firings d (timers sch)\<rparr>"

definition newScheduler :: "nat option \<Rightarrow> scheduler" where
  "newScheduler p =
     \<lparr>setting_polling = p, polling = None, timers = [], nextHandle = 0, pollCalls = 0\<rparr>"

text \<open>
  What happens to a started device: time passes, or the settings are changed. \<open>run\<close>
  is the scheduler after a sequence of such events.
\<close>

datatype event = Elapse nat | Settings nat

fun run :: "event list \<Rightarrow> scheduler \<Rightarrow> scheduler" where
  "run [] sch = sch"
| "run (Elapse d # es) sch = run es (elapse d sch)"
| "run (Settings newPolling # es) sch = run es (onSettings newPolling sch)"

text \<open>
  The reference the scheduler is compared with. \<open>ticks period since es\<close> counts, over the
  events \<open>es\<close>, one tick per full period of a single timer that last fired \<open>since\<close> ms
  ago; a change of the settings restarts the count with the new period and adds no tick.
  \<open>lastPeriod\<close> is the period in force after the events.
\<close>

fun ticks :: "nat \<Rightarrow> nat \<Rightarrow> event list \<Rightarrow> nat" where
  "ticks period since [] = 0"
| "ticks period since (Elapse d # es) =
     (since + d) div period + ticks period ((since + d) mod period) es"
| "ticks period since (Settings newPolling # es) =
     ticks (timerDelay (Some (1000 * newPolling))) 0 es"

fun lastPeriod :: "nat \<Rightarrow> event list \<Rightarrow> nat" where
  "lastPeriod period [] = period"
| "lastPeriod period (Elapse d # es) = lastPeriod period es"
| "lastPeriod period (Settings newPolling # es) =
     lastPeriod (timerDelay (Some (1000 * newPolling))) es"

section \<open>Observing a cycle\<close>

text \<open>What one step added to the two sinks.\<close>

definition newWrites :: "device \<Rightarrow> device \<Rightarrow> capability_write list" where
  "newWrites s s' = drop (length (writes s)) (writes s')"

definition newTriggers :: "device \<Rightarrow> device \<Rightarrow> string list" where
  "newTriggers s s' = map fst (drop (length (triggers s)) (triggers s'))"

fun capabilityOf :: "capability_write \<Rightarrow> string" where
  "capabilityOf (NumberWrite n v) = n"
| "capabilityOf (BooleanWrite n v) = n"
| "capabilityOf (StringWrite n v) = n"

text \<open>\<open>holds s w\<close>: the device already holds the value that \<open>w\<close> writes.\<close>

fun holds :: "device \<Rightarrow> capability_write \<Rightarrow> bool" where
  "holds s (NumberWrite n v) = (numberCaps s n = Some v)"
| "holds s (BooleanWrite n v) = (booleanCaps s n = Some v)"
| "holds s (StringWrite n v) = (stringCaps s n = v)"

text \<open>The value of the local \<^verbatim>\<open>sessionCost\<close> in \<^verbatim>\<open>whenChangedSetSessionCost\<close>.\<close>

definition sessionCost :: "real \<Rightarrow> real option \<Rightarrow> real \<Rightarrow> real option \<Rightarrow> real" where
  "sessionCost cur old price oldCost =
     (if cur < ToNumber old \<or> cur = 0 then cur * price
      else ToNumber oldCost + (cur - ToNumber old) * price)"

text \<open>
  The states a cycle goes through, named for the proofs: \<open>setTotal\<close> is the write of
  \<^verbatim>\<open>whenChangedSetTotalEnergy\<close> once the historical total is known, \<open>reconcile4\<close> the
  cycle up to \<^verbatim>\<open>measure_power\<close>, \<open>reconcile9\<close> up to
  \<^verbatim>\<open>measure_maximum_charging_current\<close>, \<open>reconcile11\<close> the whole cycle.
\<close>

definition setTotal :: "real \<Rightarrow> real option \<Rightarrow> real \<Rightarrow> device \<Rightarrow> device" where
  "setTotal cur old totalEnergy t =
     (if cur \<noteq> ToNumber old
      then setCapabilityValue_number ''meter_power'' (totalEnergy + cur) t
      else t)"

definition reconcile4 :: "(int \<Rightarrow> string) \<Rightarrow> stats \<Rightarrow> config \<Rightarrow> device \<Rightarrow> device" where
  "reconcile4 gs st cfg t =
     whenChangedSetCapabilityValue_number ''measure_power'' (charging_power st * 1000)
      (whenChangedSetCapabilityValue_number ''maximum_available_current''
         (max_available_current cfg)
        (whenChangedSetCapabilityValue_boolean ''onoff''
           (getChargerStatusName gs st \<noteq> ''Paused'')
          (whenChangedSetCapabilityValue_boolean ''locked'' (locked cfg)
            (whenChangedSetAndTriggerStatus gs st (checkDeviceAvailability gs st t)))))"

definition reconcile9 ::
    "(int \<Rightarrow> string) \<Rightarrow> stats \<Rightarrow> config \<Rightarrow> real \<Rightarrow> device \<Rightarrow> device" where
  "reconcile9 gs st cfg totalEnergy t =
     (let s4 = reconcile4 gs st cfg t;
          old = numberCaps s4 ''meter_power_session''
      in whenChangedSetCapabilityValue_number ''measure_maximum_charging_current''
           (max_charging_current cfg)
          (whenChangedSetCapabilityValue_number ''measure_energy_cost'' (energy_price cfg)
            (whenChangedSetCapabilityValue_number ''meter_power_session'' (added_energy st)
              (whenChangedSetSessionCost (added_energy st) old (energy_price cfg)
                (setTotal (added_energy st) old totalEnergy s4)))))"

definition reconcile11 ::
    "(int \<Rightarrow> string) \<Rightarrow> stats \<Rightarrow> config \<Rightarrow> real \<Rightarrow> string \<Rightarrow> device \<Rightarrow> device" where
  "reconcile11 gs st cfg totalEnergy uid t =
     whenChangedSetCapabilityValue_string ''user_name'' (user_name st)
       (whenChangedSetCapabilityValue_string ''user_id'' (Some uid)
         (reconcile9 gs st cfg totalEnergy t))"

section \<open>Concrete inputs\<close>

text \<open>
  Modelled from the spec: the status table of \<^verbatim>\<open>lib/statuses\<close> is not among the sources.
  The spec fixes a total lookup from integer codes to status names with the fallback
  \<^verbatim>\<open>Unknown\<close>. This instance knows three codes; it is used at the concrete inputs only,
  and every general statement below holds for any table.
\<close>

definition getStatus_sample :: "int \<Rightarrow> string" where
  "getStatus_sample statusId =
     (if statusId = 194 then ''Charging''
      else if statusId = 161 then ''Ready''
      else if statusId = 0 then ''Disconnected''
      else ''Unknown'')"

text \<open>A device that has just started monitoring: nothing set, nothing written.\<close>

definition newDevice :: "string \<Rightarrow> device" where
  "newDevice devId =
     \<lparr>device_id = devId, numberCaps = (\<lambda>n. None), booleanCaps = (\<lambda>n. None),
      stringCaps = (\<lambda>n. None), available = True, writes = [], triggers = []\<rparr>"

definition config_sample :: config where
  "config_sample =
     \<lparr>locked = False, max_available_current = 32, max_charging_current = 16,
      energy_price = 2\<rparr>"

text \<open>A charging snapshot with 2 kWh in the session, and the same charger once unplugged.\<close>

definition stats_charging :: stats where
  "stats_charging =
     \<lparr>status_id = 194, charging_power = 7, added_energy = 2, user_id = Some ''42'',
      user_name = Some ''Ann'', config_data = Some config_sample\<rparr>"

definition stats_ready :: stats where
  "stats_ready =
     \<lparr>status_id = 161, charging_power = 0, added_energy = 0, user_id = Some ''42'',
      user_name = Some ''Ann'', config_data = Some config_sample\<rparr>"

definition sessions_sample :: "session list" where
  "sessions_sample =
     [\<lparr>charger = ''A'', energy = Some 5\<rparr>,
      \<lparr>charger = ''B'', energy = Some 9\<rparr>,
      \<lparr>charger = ''A'', energy = None\<rparr>]"

text \<open>
  The writes of a cycle, in the order the code makes them: \<open>writes4\<close> up to
  \<^verbatim>\<open>measure_power\<close>, \<open>writes9\<close> from \<^verbatim>\<open>meter_power\<close> to
  \<^verbatim>\<open>measure_maximum_charging_current\<close>, \<open>writes11\<close> the user's id and name. Each
  condition is on the state \<open>t\<close> the cycle started in.
\<close>

definition writes4 :: "(int \<Rightarrow> string) \<Rightarrow> stats \<Rightarrow> config \<Rightarrow> device \<Rightarrow> capability_write list" where
  "writes4 gs st cfg t =
     (if stringCaps t ''status'' = Some (getChargerStatusName gs st) then []
      else [StringWrite ''status'' (Some (getChargerStatusName gs st))])
     @ (if booleanCaps t ''locked'' = Some (locked cfg) then []
        else [BooleanWrite ''locked'' (locked cfg)])
     @ (if booleanCaps t ''onoff'' = Some (getChargerStatusName gs st \<noteq> ''Paused'') then []
        else [BooleanWrite ''onoff'' (getChargerStatusName gs st \<noteq> ''Paused'')])
     @ (if numberCaps t ''maximum_available_current'' = Some (max_available_current cfg) then []
        else [NumberWrite ''maximum_available_current'' (max_available_current cfg)])
     @ (if numberCaps t ''measure_power'' = Some (charging_power st * 1000) then []
        else [NumberWrite ''measure_power'' (charging_power st * 1000)])"

definition writes9 :: "stats \<Rightarrow> config \<Rightarrow> real \<Rightarrow> device \<Rightarrow> capability_write list" where
  "writes9 st cfg totalEnergy t =
     (if added_energy st = ToNumber (numberCaps t ''meter_power_session'') then []
      else [NumberWrite ''meter_power'' (totalEnergy + added_energy st)])
     @ (if numberCaps t ''meter_session_cost''
            = Some (sessionCost (added_energy st) (numberCaps t ''meter_power_session'')
                      (energy_price cfg) (numberCaps t ''meter_session_cost''))
        then []
        else [NumberWrite ''meter_session_cost''
                (sessionCost (added_energy st) (numberCaps t ''meter_power_session'')
                   (energy_price cfg) (numberCaps t ''meter_session_cost''))])
     @ (if numberCaps t ''meter_power_session'' = Some (added_energy st) then []
        else [NumberWrite ''meter_power_session'' (added_energy st)])
     @ (if numberCaps t ''measure_energy_cost'' = Some (energy_price cfg) then []
        else [NumberWrite ''measure_energy_cost'' (energy_price cfg)])
     @ (if numberCaps t ''measure_maximum_charging_current'' = Some (max_charging_current cfg)
        then []
        else [NumberWrite ''measure_maximum_charging_current'' (max_charging_current cfg)])"

definition writes11 :: "stats \<Rightarrow> string \<Rightarrow> device \<Rightarrow> capability_write list" where
  "writes11 st uid t =
     (if stringCaps t ''user_id'' = Some uid then [] else [StringWrite ''user_id'' (Some uid)])
     @ (if stringCaps t ''user_name'' = user_name st then []
        else [StringWrite ''user_name'' (user_name st)])"


text \<open>
  The names, in the order written, of the writes to the three observables that depend on
  the session energy.
\<close>

definition dependentObservables :: "capability_write list \<Rightarrow> string list" where
  "dependentObservables ws =
     filter (\<lambda>n. n \<in> {''meter_power'', ''meter_session_cost'', ''meter_power_session''})
       (map capabilityOf ws)"


text \<open>
  The device after a first cycle on \<open>stats_charging\<close>, and the session list once that
  session has ended and moved into the history.
\<close>

definition sessions_ended :: "session list" where
  "sessions_ended = sessions_sample @ [\<lparr>charger = ''A'', energy = Some 2\<rparr>]"

definition device_charging :: device where
  "device_charging =
     fst (poll getStatus_sample (Inr stats_charging) (Inr (Some sessions_sample))
            (newDevice ''A''))"


section \<open>The session cost\<close>

text \<open>
  C1. After \<open>whenChangedSetSessionCost\<close> the session cost held by the device is
  \<open>currentEnergy * price\<close> when the current session energy is below the previous one or is
  zero, and \<open>previousCost + (currentEnergy - previousEnergy) * price\<close> otherwise, whatever
  the previous energy, the previous cost and the price are. A previous value that was never
  set (\<^verbatim>\<open>null\<close>) counts as 0.
\<close>

theorem session_cost_value:
  "numberCaps (whenChangedSetSessionCost currentEnergy previousEnergy price s)
       ''meter_session_cost''
   = Some (if currentEnergy < ToNumber previousEnergy \<or> currentEnergy = 0
           then currentEnergy * price
           else ToNumber (numberCaps s ''meter_session_cost'')
                  + (currentEnergy - ToNumber previousEnergy) * price)"
  by (simp add: whenChangedSetSessionCost_def setCapabilityValue_number_def Let_def)

section \<open>Frame lemmas\<close>

lemma setCapabilityValue_number_fields:
  "numberCaps (setCapabilityValue_number n v t) = (numberCaps t)(n := Some v)"
  "booleanCaps (setCapabilityValue_number n v t) = booleanCaps t"
  "stringCaps (setCapabilityValue_number n v t) = stringCaps t"
  "available (setCapabilityValue_number n v t) = available t"
  "device_id (setCapabilityValue_number n v t) = device_id t"
  "triggers (setCapabilityValue_number n v t) = triggers t"
  "writes (setCapabilityValue_number n v t) = writes t @ [NumberWrite n v]"
  by (simp_all add: setCapabilityValue_number_def)

lemma number_fields:
  "numberCaps (whenChangedSetCapabilityValue_number n v t) = (numberCaps t)(n := Some v)"
  "booleanCaps (whenChangedSetCapabilityValue_number n v t) = booleanCaps t"
  "stringCaps (whenChangedSetCapabilityValue_number n v t) = stringCaps t"
  "available (whenChangedSetCapabilityValue_number n v t) = available t"
  "device_id (whenChangedSetCapabilityValue_number n v t) = device_id t"
  "triggers (whenChangedSetCapabilityValue_number n v t) = triggers t"
  by (auto simp add: whenChangedSetCapabilityValue_number_def setCapabilityValue_number_def)

lemma boolean_fields:
  "numberCaps (whenChangedSetCapabilityValue_boolean n v t) = numberCaps t"
  "booleanCaps (whenChangedSetCapabilityValue_boolean n v t) = (booleanCaps t)(n := Some v)"
  "stringCaps (whenChangedSetCapabilityValue_boolean n v t) = stringCaps t"
  "available (whenChangedSetCapabilityValue_boolean n v t) = available t"
  "device_id (whenChangedSetCapabilityValue_boolean n v t) = device_id t"
  "triggers (whenChangedSetCapabilityValue_boolean n v t) = triggers t"
  by (auto simp add: whenChangedSetCapabilityValue_boolean_def setCapabilityValue_boolean_def)

lemma string_fields:
  "numberCaps (whenChangedSetCapabilityValue_string n v t) = numberCaps t"
  "booleanCaps (whenChangedSetCapabilityValue_string n v t) = booleanCaps t"
  "stringCaps (whenChangedSetCapabilityValue_string n v t) = (stringCaps t)(n := v)"
  "available (whenChangedSetCapabilityValue_string n v t) = available t"
  "device_id (whenChangedSetCapabilityValue_string n v t) = device_id t"
  "triggers (whenChangedSetCapabilityValue_string n v t) = triggers t"
  by (auto simp add: whenChangedSetCapabilityValue_string_def setCapabilityValue_string_def)

lemma cost_fields:
  "numberCaps (whenChangedSetSessionCost cur old price t)
     = (numberCaps t)(''meter_session_cost'' :=
          Some (sessionCost cur old price (numberCaps t ''meter_session_cost'')))"
  "booleanCaps (whenChangedSetSessionCost cur old price t) = booleanCaps t"
  "stringCaps (whenChangedSetSessionCost cur old price t) = stringCaps t"
  "available (whenChangedSetSessionCost cur old price t) = available t"
  "device_id (whenChangedSetSessionCost cur old price t) = device_id t"
  "triggers (whenChangedSetSessionCost cur old price t) = triggers t"
  by (auto simp add: whenChangedSetSessionCost_def setCapabilityValue_number_def Let_def
      sessionCost_def)

lemma trigger_fields:
  "numberCaps (triggerStatusChange a b t) = numberCaps t"
  "booleanCaps (triggerStatusChange a b t) = booleanCaps t"
  "stringCaps (triggerStatusChange a b t) = stringCaps t"
  "available (triggerStatusChange a b t) = available t"
  "device_id (triggerStatusChange a b t) = device_id t"
  "writes (triggerStatusChange a b t) = writes t"
  by (simp_all add: triggerStatusChange_def trigger_def Let_def)

lemma status_fields:
  "numberCaps (whenChangedSetAndTriggerStatus gs st t) = numberCaps t"
  "booleanCaps (whenChangedSetAndTriggerStatus gs st t) = booleanCaps t"
  "stringCaps (whenChangedSetAndTriggerStatus gs st t)
     = (stringCaps t)(''status'' := Some (getChargerStatusName gs st))"
  "available (whenChangedSetAndTriggerStatus gs st t) = available t"
  "device_id (whenChangedSetAndTriggerStatus gs st t) = device_id t"
  by (auto simp add: whenChangedSetAndTriggerStatus_def trigger_fields
      setCapabilityValue_string_def Let_def)

lemma avail_fields:
  "numberCaps (checkDeviceAvailability gs st t) = numberCaps t"
  "booleanCaps (checkDeviceAvailability gs st t) = booleanCaps t"
  "stringCaps (checkDeviceAvailability gs st t) = stringCaps t"
  "available (checkDeviceAvailability gs st t)
     = (\<not> (getChargerStatusName gs st = ''Disconnected''
           \<or> getChargerStatusName gs st = ''Error''))"
  "device_id (checkDeviceAvailability gs st t) = device_id t"
  "writes (checkDeviceAvailability gs st t) = writes t"
  "triggers (checkDeviceAvailability gs st t) = triggers t"
  by (simp_all add: checkDeviceAvailability_def setAvailable_def setUnavailable_def Let_def)

lemma setTotal_fields:
  "k \<noteq> ''meter_power'' \<Longrightarrow> numberCaps (setTotal cur old totalEnergy t) k = numberCaps t k"
  "booleanCaps (setTotal cur old totalEnergy t) = booleanCaps t"
  "stringCaps (setTotal cur old totalEnergy t) = stringCaps t"
  "available (setTotal cur old totalEnergy t) = available t"
  "device_id (setTotal cur old totalEnergy t) = device_id t"
  "triggers (setTotal cur old totalEnergy t) = triggers t"
  by (simp_all add: setTotal_def setCapabilityValue_number_def)

lemmas fields = setCapabilityValue_number_fields number_fields boolean_fields string_fields
  cost_fields status_fields avail_fields setTotal_fields

section \<open>What each step writes\<close>

lemma number_writes:
  "writes (whenChangedSetCapabilityValue_number n v t)
     = writes t @ (if numberCaps t n = Some v then [] else [NumberWrite n v])"
  by (auto simp add: whenChangedSetCapabilityValue_number_def setCapabilityValue_number_def)

lemma boolean_writes:
  "writes (whenChangedSetCapabilityValue_boolean n v t)
     = writes t @ (if booleanCaps t n = Some v then [] else [BooleanWrite n v])"
  by (auto simp add: whenChangedSetCapabilityValue_boolean_def setCapabilityValue_boolean_def)

lemma string_writes:
  "writes (whenChangedSetCapabilityValue_string n v t)
     = writes t @ (if stringCaps t n = v then [] else [StringWrite n v])"
  by (auto simp add: whenChangedSetCapabilityValue_string_def setCapabilityValue_string_def)

lemma cost_writes:
  "writes (whenChangedSetSessionCost cur old price t)
     = writes t @
       (if numberCaps t ''meter_session_cost''
            = Some (sessionCost cur old price (numberCaps t ''meter_session_cost''))
        then []
        else [NumberWrite ''meter_session_cost''
                (sessionCost cur old price (numberCaps t ''meter_session_cost''))])"
  by (auto simp add: whenChangedSetSessionCost_def setCapabilityValue_number_def Let_def
      sessionCost_def)

lemma status_writes:
  "writes (whenChangedSetAndTriggerStatus gs st t)
     = writes t @
       (if stringCaps t ''status'' = Some (getChargerStatusName gs st) then []
        else [StringWrite ''status'' (Some (getChargerStatusName gs st))])"
  by (auto simp add: whenChangedSetAndTriggerStatus_def trigger_fields
      setCapabilityValue_string_def Let_def)

lemma setTotal_writes:
  "writes (setTotal cur old totalEnergy t)
     = writes t @
       (if cur = ToNumber old then [] else [NumberWrite ''meter_power'' (totalEnergy + cur)])"
  by (simp add: setTotal_def setCapabilityValue_number_def)

lemmas step_writes = number_writes boolean_writes string_writes cost_writes status_writes
  setTotal_writes

section \<open>Steps that change nothing\<close>

lemma number_noop:
  "numberCaps t n = Some v \<Longrightarrow> whenChangedSetCapabilityValue_number n v t = t"
  by (simp add: whenChangedSetCapabilityValue_number_def)

lemma boolean_noop:
  "booleanCaps t n = Some v \<Longrightarrow> whenChangedSetCapabilityValue_boolean n v t = t"
  by (simp add: whenChangedSetCapabilityValue_boolean_def)

lemma string_noop:
  "stringCaps t n = v \<Longrightarrow> whenChangedSetCapabilityValue_string n v t = t"
  by (simp add: whenChangedSetCapabilityValue_string_def)

lemma status_noop:
  "stringCaps t ''status'' = Some (getChargerStatusName gs st)
   \<Longrightarrow> whenChangedSetAndTriggerStatus gs st t = t"
  by (simp add: whenChangedSetAndTriggerStatus_def)

lemma avail_noop:
  "available t = (\<not> (getChargerStatusName gs st = ''Disconnected''
                     \<or> getChargerStatusName gs st = ''Error''))
   \<Longrightarrow> checkDeviceAvailability gs st t = t"
  by (simp add: checkDeviceAvailability_def setAvailable_def setUnavailable_def Let_def)

lemma cost_noop:
  "numberCaps t ''meter_session_cost'' = Some c \<Longrightarrow> sessionCost cur old price (Some c) = c
   \<Longrightarrow> whenChangedSetSessionCost cur old price t = t"
  by (simp add: whenChangedSetSessionCost_def sessionCost_def Let_def)

lemma sessionCost_same:
  "sessionCost cur (Some cur) price (Some (sessionCost cur old price oldCost))
     = sessionCost cur old price oldCost"
  by (simp add: sessionCost_def)

lemma setTotal_noop: "setTotal cur (Some cur) totalEnergy t = t"
  by (simp add: setTotal_def)

lemmas noops = number_noop boolean_noop string_noop status_noop avail_noop

section \<open>The cycle by its outcome\<close>

lemma total_unfold:
  "whenChangedSetTotalEnergy ss cur old t =
     (case retrieveEnergyHistoricalTotal ss (device_id t) of
        Inl e \<Rightarrow> (t, Some e)
      | Inr totalEnergy \<Rightarrow> (setTotal cur old totalEnergy t, None))"
  by (simp add: whenChangedSetTotalEnergy_def setTotal_def split: sum.splits)

lemma poll_fetch_failed:
  "poll gs (Inl e) ss t = (setUnavailable t, None)"
  by (simp add: poll_def retrieveChargerStats_def)

lemma poll_no_config:
  assumes "config_data st = None"
  shows "poll gs (Inr st) ss t
     = (whenChangedSetAndTriggerStatus gs st (checkDeviceAvailability gs st t), Some TypeError)"
  using assms by (simp add: poll_def retrieveChargerStats_def whenChangedSetCapabilities_def)

lemma poll_no_sessions:
  assumes "config_data st = Some cfg" "retrieveEnergyHistoricalTotal ss (device_id t) = Inl e"
  shows "poll gs (Inr st) ss t = (reconcile4 gs st cfg t, Some e)"
  using assms
  by (simp add: poll_def retrieveChargerStats_def whenChangedSetCapabilities_def Let_def
      total_unfold fields reconcile4_def)

lemma poll_no_user:
  assumes "config_data st = Some cfg"
    "retrieveEnergyHistoricalTotal ss (device_id t) = Inr totalEnergy" "user_id st = None"
  shows "poll gs (Inr st) ss t = (reconcile9 gs st cfg totalEnergy t, Some TypeError)"
  using assms
  by (simp add: poll_def retrieveChargerStats_def whenChangedSetCapabilities_def Let_def
      total_unfold fields reconcile4_def reconcile9_def)

lemma poll_complete:
  assumes "config_data st = Some cfg"
    "retrieveEnergyHistoricalTotal ss (device_id t) = Inr totalEnergy" "user_id st = Some uid"
  shows "poll gs (Inr st) ss t = (reconcile11 gs st cfg totalEnergy uid t, None)"
  using assms
  by (simp add: poll_def retrieveChargerStats_def whenChangedSetCapabilities_def Let_def
      total_unfold fields reconcile4_def reconcile9_def reconcile11_def)

text \<open>Every cycle has one of the five outcomes above.\<close>

lemma poll_cases:
  obtains (fetch_failed) e where "cs = Inl e"
  | (no_config) st where "cs = Inr st" "config_data st = None"
  | (no_sessions) st cfg e where "cs = Inr st" "config_data st = Some cfg"
      "retrieveEnergyHistoricalTotal ss (device_id t) = Inl e"
  | (no_user) st cfg totalEnergy where "cs = Inr st" "config_data st = Some cfg"
      "retrieveEnergyHistoricalTotal ss (device_id t) = Inr totalEnergy" "user_id st = None"
  | (complete) st cfg totalEnergy uid where "cs = Inr st" "config_data st = Some cfg"
      "retrieveEnergyHistoricalTotal ss (device_id t) = Inr totalEnergy"
      "user_id st = Some uid"
proof (cases cs)
  case (Inl e)
  then show ?thesis by (rule fetch_failed)
next
  case (Inr st)
  show ?thesis
  proof (cases "config_data st")
    case None
    with Inr show ?thesis by (rule no_config)
  next
    case (Some cfg)
    show ?thesis
    proof (cases "retrieveEnergyHistoricalTotal ss (device_id t)")
      case (Inl e)
      with Inr Some show ?thesis by (rule no_sessions)
    next
      case tot: (Inr totalEnergy)
      show ?thesis
      proof (cases "user_id st")
        case None
        with Inr Some tot show ?thesis by (rule no_user)
      next
        case (Some uid)
        with Inr \<open>config_data st = Some cfg\<close> tot show ?thesis by (rule complete)
      qed
    qed
  qed
qed

section \<open>The states of a cycle\<close>

lemma reconcile4_fields:
  "device_id (reconcile4 gs st cfg t) = device_id t"
  "available (reconcile4 gs st cfg t)
     = (\<not> (getChargerStatusName gs st = ''Disconnected''
           \<or> getChargerStatusName gs st = ''Error''))"
  "stringCaps (reconcile4 gs st cfg t)
     = (stringCaps t)(''status'' := Some (getChargerStatusName gs st))"
  "booleanCaps (reconcile4 gs st cfg t)
     = (booleanCaps t)(''locked'' := Some (locked cfg),
         ''onoff'' := Some (getChargerStatusName gs st \<noteq> ''Paused''))"
  "numberCaps (reconcile4 gs st cfg t)
     = (numberCaps t)(''maximum_available_current'' := Some (max_available_current cfg),
         ''measure_power'' := Some (charging_power st * 1000))"
  by (simp_all add: reconcile4_def fields)

lemma reconcile4_noop:
  assumes "available u
     = (\<not> (getChargerStatusName gs st = ''Disconnected''
           \<or> getChargerStatusName gs st = ''Error''))"
    "stringCaps u ''status'' = Some (getChargerStatusName gs st)"
    "booleanCaps u ''locked'' = Some (locked cfg)"
    "booleanCaps u ''onoff'' = Some (getChargerStatusName gs st \<noteq> ''Paused'')"
    "numberCaps u ''maximum_available_current'' = Some (max_available_current cfg)"
    "numberCaps u ''measure_power'' = Some (charging_power st * 1000)"
  shows "reconcile4 gs st cfg u = u"
  using assms by (simp add: reconcile4_def noops)

lemma reconcile4_settled:
  "reconcile4 gs st cfg (reconcile4 gs st cfg t) = reconcile4 gs st cfg t"
  by (rule reconcile4_noop) (simp_all add: reconcile4_fields)

lemma reconcile9_fields:
  "device_id (reconcile9 gs st cfg totalEnergy t) = device_id t"
  "available (reconcile9 gs st cfg totalEnergy t)
     = (\<not> (getChargerStatusName gs st = ''Disconnected''
           \<or> getChargerStatusName gs st = ''Error''))"
  "stringCaps (reconcile9 gs st cfg totalEnergy t)
     = (stringCaps t)(''status'' := Some (getChargerStatusName gs st))"
  "booleanCaps (reconcile9 gs st cfg totalEnergy t)
     = (booleanCaps t)(''locked'' := Some (locked cfg),
         ''onoff'' := Some (getChargerStatusName gs st \<noteq> ''Paused''))"
  "numberCaps (reconcile9 gs st cfg totalEnergy t) ''maximum_available_current''
     = Some (max_available_current cfg)"
  "numberCaps (reconcile9 gs st cfg totalEnergy t) ''measure_power''
     = Some (charging_power st * 1000)"
  "numberCaps (reconcile9 gs st cfg totalEnergy t) ''meter_power_session''
     = Some (added_energy st)"
  "numberCaps (reconcile9 gs st cfg totalEnergy t) ''measure_energy_cost''
     = Some (energy_price cfg)"
  "numberCaps (reconcile9 gs st cfg totalEnergy t) ''measure_maximum_charging_current''
     = Some (max_charging_current cfg)"
  "numberCaps (reconcile9 gs st cfg totalEnergy t) ''meter_session_cost''
     = Some (sessionCost (added_energy st) (numberCaps t ''meter_power_session'')
               (energy_price cfg) (numberCaps t ''meter_session_cost''))"
  by (simp_all add: reconcile9_def Let_def fields reconcile4_fields)

lemma reconcile9_meter_power:
  "numberCaps (reconcile9 gs st cfg totalEnergy t) ''meter_power''
     = (if added_energy st = ToNumber (numberCaps t ''meter_power_session'')
        then numberCaps t ''meter_power''
        else Some (totalEnergy + added_energy st))"
  by (simp add: reconcile9_def Let_def fields reconcile4_fields setTotal_def)

lemma reconcile9_noop:
  assumes "reconcile4 gs st cfg u = u"
    "numberCaps u ''meter_power_session'' = Some (added_energy st)"
    "numberCaps u ''meter_session_cost''
       = Some (sessionCost (added_energy st) old (energy_price cfg) oldCost)"
    "numberCaps u ''measure_energy_cost'' = Some (energy_price cfg)"
    "numberCaps u ''measure_maximum_charging_current'' = Some (max_charging_current cfg)"
  shows "reconcile9 gs st cfg totalEnergy u = u"
  using assms
  by (simp add: reconcile9_def Let_def setTotal_noop cost_noop sessionCost_same noops)

lemma reconcile9_settled:
  "reconcile9 gs st cfg totalEnergy (reconcile9 gs st cfg totalEnergy t)
     = reconcile9 gs st cfg totalEnergy t"
  by (rule reconcile9_noop) (simp_all add: reconcile9_fields reconcile4_noop)

lemma reconcile11_fields:
  "device_id (reconcile11 gs st cfg totalEnergy uid t) = device_id t"
  "available (reconcile11 gs st cfg totalEnergy uid t)
     = (\<not> (getChargerStatusName gs st = ''Disconnected''
           \<or> getChargerStatusName gs st = ''Error''))"
  "stringCaps (reconcile11 gs st cfg totalEnergy uid t)
     = (stringCaps t)(''status'' := Some (getChargerStatusName gs st),
         ''user_id'' := Some uid, ''user_name'' := user_name st)"
  "booleanCaps (reconcile11 gs st cfg totalEnergy uid t)
     = booleanCaps (reconcile9 gs st cfg totalEnergy t)"
  "numberCaps (reconcile11 gs st cfg totalEnergy uid t)
     = numberCaps (reconcile9 gs st cfg totalEnergy t)"
  by (simp_all add: reconcile11_def fields reconcile9_fields)

lemma reconcile11_settled:
  "reconcile11 gs st cfg totalEnergy uid (reconcile11 gs st cfg totalEnergy uid t)
     = reconcile11 gs st cfg totalEnergy uid t"
proof -
  let ?u = "reconcile11 gs st cfg totalEnergy uid t"
  have r4: "reconcile4 gs st cfg ?u = ?u"
    by (rule reconcile4_noop) (simp_all add: reconcile11_fields reconcile9_fields)
  have r9: "reconcile9 gs st cfg totalEnergy ?u = ?u"
    by (rule reconcile9_noop [OF r4]) (simp_all add: reconcile11_fields reconcile9_fields)
  have "whenChangedSetCapabilityValue_string ''user_name'' (user_name st)
          (whenChangedSetCapabilityValue_string ''user_id'' (Some uid) ?u) = ?u"
    by (simp add: reconcile11_fields noops)
  then show ?thesis
    by (subst (1) reconcile11_def) (simp add: r9)
qed

section \<open>What a cycle writes\<close>

lemma newWrites_append: "writes s' = writes s @ ws \<Longrightarrow> newWrites s s' = ws"
  by (simp add: newWrites_def)

lemma reconcile4_writes:
  "writes (reconcile4 gs st cfg t) = writes t @ writes4 gs st cfg t"
  by (simp add: reconcile4_def writes4_def step_writes fields split del: if_split cong: if_cong)

lemma reconcile9_writes:
  "writes (reconcile9 gs st cfg totalEnergy t)
     = writes t @ writes4 gs st cfg t @ writes9 st cfg totalEnergy t"
  by (simp add: reconcile9_def writes9_def Let_def step_writes fields reconcile4_fields
      reconcile4_writes split del: if_split cong: if_cong)

lemma reconcile11_writes:
  "writes (reconcile11 gs st cfg totalEnergy uid t)
     = writes t @ writes4 gs st cfg t @ writes9 st cfg totalEnergy t @ writes11 st uid t"
  by (simp add: reconcile11_def writes11_def step_writes fields reconcile9_fields
      reconcile9_writes split del: if_split cong: if_cong)

section \<open>Lemmas on the write lists\<close>

lemma writes4_differ: "w \<in> set (writes4 gs st cfg t) \<Longrightarrow> \<not> holds t w"
  by (auto simp add: writes4_def split: if_splits)

lemma writes9_differ:
  "w \<in> set (writes9 st cfg totalEnergy t) \<Longrightarrow> capabilityOf w \<noteq> ''meter_power''
   \<Longrightarrow> \<not> holds t w"
  by (auto simp add: writes9_def split: if_splits)

lemma writes9_meter_power:
  "w \<in> set (writes9 st cfg totalEnergy t) \<Longrightarrow> capabilityOf w = ''meter_power''
   \<Longrightarrow> added_energy st \<noteq> ToNumber (numberCaps t ''meter_power_session'')"
  by (auto simp add: writes9_def split: if_splits)

lemma writes4_names: "w \<in> set (writes4 gs st cfg t) \<Longrightarrow> capabilityOf w \<noteq> ''meter_power''"
  by (auto simp add: writes4_def split: if_splits)

lemma writes11_names: "w \<in> set (writes11 st uid t) \<Longrightarrow> capabilityOf w \<noteq> ''meter_power''"
  by (auto simp add: writes11_def split: if_splits)

lemma writes11_differ: "w \<in> set (writes11 st uid t) \<Longrightarrow> \<not> holds t w"
  by (auto simp add: writes11_def split: if_splits)

text \<open>The writes of a cycle, by its outcome.\<close>

lemma newWrites_fetch_failed: "newWrites s (fst (poll gs (Inl e) ss s)) = []"
  by (simp add: poll_fetch_failed setUnavailable_def newWrites_def)

lemma newWrites_no_config:
  "config_data st = None \<Longrightarrow>
   newWrites s (fst (poll gs (Inr st) ss s))
     = (if stringCaps s ''status'' = Some (getChargerStatusName gs st) then []
        else [StringWrite ''status'' (Some (getChargerStatusName gs st))])"
  by (simp add: poll_no_config newWrites_append status_writes avail_fields)

lemma newWrites_no_sessions:
  "config_data st = Some cfg \<Longrightarrow> retrieveEnergyHistoricalTotal ss (device_id s) = Inl e \<Longrightarrow>
   newWrites s (fst (poll gs (Inr st) ss s)) = writes4 gs st cfg s"
  by (simp add: poll_no_sessions newWrites_append reconcile4_writes)

lemma newWrites_no_user:
  "config_data st = Some cfg \<Longrightarrow>
   retrieveEnergyHistoricalTotal ss (device_id s) = Inr totalEnergy \<Longrightarrow> user_id st = None \<Longrightarrow>
   newWrites s (fst (poll gs (Inr st) ss s))
     = writes4 gs st cfg s @ writes9 st cfg totalEnergy s"
  by (simp add: poll_no_user newWrites_append reconcile9_writes)

lemma newWrites_complete:
  "config_data st = Some cfg \<Longrightarrow>
   retrieveEnergyHistoricalTotal ss (device_id s) = Inr totalEnergy \<Longrightarrow>
   user_id st = Some uid \<Longrightarrow>
   newWrites s (fst (poll gs (Inr st) ss s))
     = writes4 gs st cfg s @ writes9 st cfg totalEnergy s @ writes11 st uid s"
  by (simp add: poll_complete newWrites_append reconcile11_writes)

lemma poll_write_differs:
  assumes "w \<in> set (newWrites s (fst (poll gs cs ss s)))"
    and "capabilityOf w \<noteq> ''meter_power''"
  shows "\<not> holds s w"
proof (cases rule: poll_cases [where cs = cs and ss = ss and t = s])
  case (fetch_failed e)
  with assms show ?thesis by (simp add: newWrites_fetch_failed)
next
  case (no_config st)
  with assms show ?thesis by (auto simp add: newWrites_no_config split: if_splits)
next
  case (no_sessions st cfg e)
  with assms show ?thesis by (auto simp add: newWrites_no_sessions dest: writes4_differ)
next
  case (no_user st cfg totalEnergy)
  with assms show ?thesis
    by (auto simp add: newWrites_no_user dest: writes4_differ writes9_differ)
next
  case (complete st cfg totalEnergy uid)
  with assms show ?thesis
    by (auto simp add: newWrites_complete dest: writes4_differ writes9_differ writes11_differ)
qed

lemma poll_write_meter_power:
  assumes "w \<in> set (newWrites s (fst (poll gs cs ss s)))"
    and "capabilityOf w = ''meter_power''"
  shows "\<exists>st. cs = Inr st
           \<and> added_energy st \<noteq> ToNumber (numberCaps s ''meter_power_session'')"
proof (cases rule: poll_cases [where cs = cs and ss = ss and t = s])
  case (fetch_failed e)
  with assms show ?thesis by (simp add: newWrites_fetch_failed)
next
  case (no_config st)
  with assms show ?thesis by (auto simp add: newWrites_no_config split: if_splits)
next
  case (no_sessions st cfg e)
  with assms show ?thesis by (auto simp add: newWrites_no_sessions dest: writes4_names)
next
  case (no_user st cfg totalEnergy)
  with assms show ?thesis
    by (auto simp add: newWrites_no_user dest: writes4_names writes9_meter_power)
next
  case (complete st cfg totalEnergy uid)
  with assms show ?thesis
    by (auto simp add: newWrites_complete
        dest: writes4_names writes9_meter_power writes11_names)
qed

text \<open>
  C7, amended. In every cycle, a write to a capability other than \<^verbatim>\<open>meter_power\<close>
  is made only when the value written differs from the value the device holds;
  \<^verbatim>\<open>meter_power\<close> is written only when the session energy of the snapshot differs from
  the session energy held (\<^verbatim>\<open>null\<close> counting as 0), whatever \<^verbatim>\<open>meter_power\<close>
  holds; and \<^verbatim>\<open>whenChangedSetCapabilityValue\<close> changes nothing when the new value is
  the one held. (Every capability is written at most once in a cycle, so the value held
  when the cycle starts is the value held when the write is made.)
\<close>

theorem writes_guarded:
  "(\<forall>w \<in> set (newWrites s (fst (poll gs cs ss s))).
      capabilityOf w \<noteq> ''meter_power'' \<longrightarrow> \<not> holds s w)
   \<and> (\<forall>w \<in> set (newWrites s (fst (poll gs cs ss s))).
        capabilityOf w = ''meter_power'' \<longrightarrow>
          (\<exists>st. cs = Inr st \<and> added_energy st \<noteq> ToNumber (numberCaps s ''meter_power_session'')))
   \<and> (holds s (NumberWrite n x) \<longrightarrow> whenChangedSetCapabilityValue_number n x s = s)
   \<and> (holds s (BooleanWrite n b) \<longrightarrow> whenChangedSetCapabilityValue_boolean n b s = s)
   \<and> (holds s (StringWrite n y) \<longrightarrow> whenChangedSetCapabilityValue_string n y s = s)"
  using poll_write_differs [of _ s gs cs ss] poll_write_meter_power [of _ s gs cs ss]
  by (auto simp add: noops)

lemma meter_power_kept:
  assumes "numberCaps s ''meter_power_session'' = Some (added_energy st)"
  shows "numberCaps (fst (poll gs (Inr st) ss s)) ''meter_power'' = numberCaps s ''meter_power''"
proof (cases rule: poll_cases [where cs = "Inr st :: error + stats" and ss = ss and t = s])
  case (fetch_failed e)
  then show ?thesis by simp
next
  case (no_config st')
  then show ?thesis by (simp add: poll_no_config fields)
next
  case (no_sessions st' cfg e)
  then show ?thesis by (simp add: poll_no_sessions reconcile4_fields)
next
  case (no_user st' cfg totalEnergy)
  with assms show ?thesis by (simp add: poll_no_user reconcile9_meter_power)
next
  case (complete st' cfg totalEnergy uid)
  with assms show ?thesis
    by (simp add: poll_complete reconcile11_fields reconcile9_meter_power)
qed

text \<open>
  C10. In every cycle whose snapshot has the session energy that \<^verbatim>\<open>meter_power_session\<close>
  holds, \<^verbatim>\<open>meter_power\<close> is not written and keeps its value, whatever the session
  list is.
\<close>

theorem lifetime_energy_kept:
  assumes "numberCaps s ''meter_power_session'' = Some (added_energy st)"
  shows "numberCaps (fst (poll gs (Inr st) ss s)) ''meter_power'' = numberCaps s ''meter_power''
    \<and> ''meter_power'' \<notin> capabilityOf ` set (newWrites s (fst (poll gs (Inr st) ss s)))"
proof
  show "numberCaps (fst (poll gs (Inr st) ss s)) ''meter_power'' = numberCaps s ''meter_power''"
    using assms by (rule meter_power_kept)
  show "''meter_power'' \<notin> capabilityOf ` set (newWrites s (fst (poll gs (Inr st) ss s)))"
  proof
    assume "''meter_power'' \<in> capabilityOf ` set (newWrites s (fst (poll gs (Inr st) ss s)))"
    then obtain w where "w \<in> set (newWrites s (fst (poll gs (Inr st) ss s)))"
      and "capabilityOf w = ''meter_power''"
      by auto
    then have "\<exists>st'. (Inr st :: error + stats) = Inr st'
        \<and> added_energy st' \<noteq> ToNumber (numberCaps s ''meter_power_session'')"
      by (rule poll_write_meter_power)
    with assms show False by simp
  qed
qed

text \<open>
  C3. For every device state, snapshot outcome and session list, a second cycle with the
  same inputs returns the state and the outcome of the first: it writes no capability and
  fires no trigger (the availability is set again, to the value it has).
\<close>

theorem poll_idempotent:
  "poll gs cs ss (fst (poll gs cs ss s)) = poll gs cs ss s
   \<and> newWrites (fst (poll gs cs ss s)) (fst (poll gs cs ss (fst (poll gs cs ss s)))) = []
   \<and> newTriggers (fst (poll gs cs ss s)) (fst (poll gs cs ss (fst (poll gs cs ss s)))) = []"
proof -
  have "poll gs cs ss (fst (poll gs cs ss s)) = poll gs cs ss s"
  proof (cases rule: poll_cases [where cs = cs and ss = ss and t = s])
    case (fetch_failed e)
    then show ?thesis by (simp add: poll_fetch_failed setUnavailable_def)
  next
    case (no_config st)
    then show ?thesis by (simp add: poll_no_config fields noops)
  next
    case (no_sessions st cfg e)
    then show ?thesis by (simp add: poll_no_sessions reconcile4_fields reconcile4_settled)
  next
    case (no_user st cfg totalEnergy)
    then show ?thesis by (simp add: poll_no_user reconcile9_fields reconcile9_settled)
  next
    case (complete st cfg totalEnergy uid)
    then show ?thesis by (simp add: poll_complete reconcile11_fields reconcile11_settled)
  qed
  then show ?thesis by (simp add: newWrites_def newTriggers_def)
qed

section \<open>Concrete facts\<close>

lemma total_sample: "retrieveEnergyHistoricalTotal (Inr (Some sessions_sample)) ''A'' = Inr 5"
  by (simp add: retrieveEnergyHistoricalTotal_def sessions_sample_def)

lemma total_ended: "retrieveEnergyHistoricalTotal (Inr (Some sessions_ended)) ''A'' = Inr 7"
  by (simp add: retrieveEnergyHistoricalTotal_def sessions_sample_def sessions_ended_def)

lemma status_sample:
  "getChargerStatusName getStatus_sample stats_charging = ''Charging''"
  "getChargerStatusName getStatus_sample stats_ready = ''Ready''"
  by (simp_all add: getChargerStatusName_def getStatus_sample_def stats_charging_def
      stats_ready_def)

lemma stats_sample_fields:
  "config_data stats_charging = Some config_sample"
  "user_id stats_charging = Some ''42''"
  "user_name stats_charging = Some ''Ann''"
  "added_energy stats_charging = 2"
  "charging_power stats_charging = 7"
  "config_data stats_ready = Some config_sample"
  "user_id stats_ready = Some ''42''"
  "user_name stats_ready = Some ''Ann''"
  "added_energy stats_ready = 0"
  "charging_power stats_ready = 0"
  "locked config_sample = False"
  "max_available_current config_sample = 32"
  "max_charging_current config_sample = 16"
  "energy_price config_sample = 2"
  by (simp_all add: stats_charging_def stats_ready_def config_sample_def)

lemma newDevice_fields:
  "device_id (newDevice d) = d"
  "numberCaps (newDevice d) n = None"
  "booleanCaps (newDevice d) n = None"
  "stringCaps (newDevice d) n = None"
  "writes (newDevice d) = []"
  "triggers (newDevice d) = []"
  "available (newDevice d) = True"
  by (simp_all add: newDevice_def)

lemma device_charging_eq:
  "device_charging = reconcile11 getStatus_sample stats_charging config_sample 5 ''42''
                       (newDevice ''A'')"
  by (simp add: device_charging_def
      poll_complete [where cfg = config_sample and totalEnergy = 5 and uid = "''42''"]
      stats_sample_fields newDevice_fields total_sample)

lemma first_poll_writes:
  "newWrites (newDevice ''A'') device_charging =
     [StringWrite ''status'' (Some ''Charging''), BooleanWrite ''locked'' False,
      BooleanWrite ''onoff'' True, NumberWrite ''maximum_available_current'' 32,
      NumberWrite ''measure_power'' 7000, NumberWrite ''meter_power'' 7,
      NumberWrite ''meter_session_cost'' 4, NumberWrite ''meter_power_session'' 2,
      NumberWrite ''measure_energy_cost'' 2,
      NumberWrite ''measure_maximum_charging_current'' 16,
      StringWrite ''user_id'' (Some ''42''), StringWrite ''user_name'' (Some ''Ann'')]"
  by (simp add: device_charging_eq newWrites_append [OF reconcile11_writes]
      writes4_def writes9_def writes11_def newDevice_fields stats_sample_fields status_sample
      sessionCost_def)

lemma device_charging_fields:
  "device_id device_charging = ''A''"
  "numberCaps device_charging ''meter_power'' = Some 7"
  "numberCaps device_charging ''meter_power_session'' = Some 2"
  "numberCaps device_charging ''meter_session_cost'' = Some 4"
  by (simp_all add: device_charging_eq reconcile11_fields reconcile9_fields
      reconcile9_meter_power newDevice_fields stats_sample_fields sessionCost_def)

text \<open>
  C2. \<open>triggerStatusChange\<close> fires \<^verbatim>\<open>status_changed\<close> first, for every old and new
  status; it fires nothing else when the new status is \<^verbatim>\<open>Error\<close> or
  \<^verbatim>\<open>Updating\<close>; from \<^verbatim>\<open>Charging\<close> to \<^verbatim>\<open>Ready\<close> it fires exactly
  \<^verbatim>\<open>status_changed\<close>, \<^verbatim>\<open>charging_ended\<close>, \<^verbatim>\<open>car_unplugged\<close> in this order,
  and from \<^verbatim>\<open>Ready\<close> to \<^verbatim>\<open>Error\<close> exactly \<^verbatim>\<open>status_changed\<close>.
\<close>

theorem status_transition_events:
  "take 1 (newTriggers s (triggerStatusChange oldStatus newStatus s)) = [''status_changed'']
   \<and> newTriggers s (triggerStatusChange oldStatus ''Error'' s) = [''status_changed'']
   \<and> newTriggers s (triggerStatusChange oldStatus ''Updating'' s) = [''status_changed'']
   \<and> newTriggers s (triggerStatusChange (Some ''Charging'') ''Ready'' s)
       = [''status_changed'', ''charging_ended'', ''car_unplugged'']
   \<and> newTriggers s (triggerStatusChange (Some ''Ready'') ''Error'' s) = [''status_changed'']"
  by (simp add: newTriggers_def triggerStatusChange_def trigger_def Let_def)

text \<open>
  C4. When the fetch of the snapshot fails, the cycle ends without reconciling: every
  capability keeps its value, the device is marked unavailable, nothing is written and no
  trigger fires, and no error leaves the cycle.
\<close>

theorem fetch_failure_keeps_state:
  "poll gs (Inl e) ss s = (s\<lparr>available := False\<rparr>, None)
   \<and> numberCaps (fst (poll gs (Inl e) ss s)) = numberCaps s
   \<and> booleanCaps (fst (poll gs (Inl e) ss s)) = booleanCaps s
   \<and> stringCaps (fst (poll gs (Inl e) ss s)) = stringCaps s
   \<and> available (fst (poll gs (Inl e) ss s)) = False
   \<and> newWrites s (fst (poll gs (Inl e) ss s)) = []
   \<and> newTriggers s (fst (poll gs (Inl e) ss s)) = []"
  by (simp add: poll_fetch_failed setUnavailable_def newWrites_def newTriggers_def)



section \<open>The historical total\<close>

lemma sumSessions_acc:
  "sumSessions devId acc xs
     = acc + sum_list (map (\<lambda>x. the (energy x))
                        (filter (\<lambda>x. charger x = devId \<and> energy x \<noteq> None) xs))"
  by (induction xs arbitrary: acc) auto

lemma historical_total:
  "retrieveEnergyHistoricalTotal (Inr (Some sessions)) devId
     = Inr (sum_list (map (\<lambda>x. the (energy x))
                        (filter (\<lambda>x. charger x = devId \<and> energy x \<noteq> None) sessions)))"
  by (simp add: retrieveEnergyHistoricalTotal_def sumSessions_acc)

lemma historical_total_empty: "retrieveEnergyHistoricalTotal (Inr (Some [])) devId = Inr 0"
  by (simp add: retrieveEnergyHistoricalTotal_def)

lemma lifetime_energy_written:
  assumes "added_energy st \<noteq> ToNumber (numberCaps s ''meter_power_session'')"
  shows "numberCaps (fst (poll gs (Inr (st\<lparr>config_data := Some cfg\<rparr>)) (Inr (Some sessions)) s))
       ''meter_power''
     = Some (sum_list (map (\<lambda>x. the (energy x))
               (filter (\<lambda>x. charger x = device_id s \<and> energy x \<noteq> None) sessions))
             + added_energy st)"
proof (cases "user_id st")
  case None
  with assms show ?thesis
    using poll_no_user [where st = "st\<lparr>config_data := Some cfg\<rparr>" and cfg = cfg
        and ss = "Inr (Some sessions)" and t = s and gs = gs, OF _ historical_total]
    by (simp add: reconcile9_meter_power)
next
  case (Some uid)
  with assms show ?thesis
    using poll_complete [where st = "st\<lparr>config_data := Some cfg\<rparr>" and cfg = cfg
        and ss = "Inr (Some sessions)" and t = s and gs = gs and uid = uid,
        OF _ historical_total]
    by (simp add: reconcile11_fields reconcile9_meter_power)
qed

text \<open>
  C6, at the failing input. With a snapshot that has its \<^verbatim>\<open>config_data\<close>, a session
  response without \<^verbatim>\<open>data\<close> makes the cycle end in a TypeError, and a rejected
  \<^verbatim>\<open>getSessionsList\<close> makes it end in that error; on a new device neither
  \<^verbatim>\<open>meter_power\<close> nor \<^verbatim>\<open>meter_power_session\<close> is set then. The guard
  \<^verbatim>\<open>totalEnergy !== undefined\<close> of \<^verbatim>\<open>whenChangedSetTotalEnergy\<close> is never reached
  with \<^verbatim>\<open>undefined\<close>.
\<close>

theorem missing_session_list_fails_poll:
  "snd (poll gs (Inr (st\<lparr>config_data := Some cfg\<rparr>)) (Inr None) s) = Some TypeError
   \<and> snd (poll gs (Inr (st\<lparr>config_data := Some cfg\<rparr>)) (Inl e) s) = Some e
   \<and> snd (poll getStatus_sample (Inr stats_charging) (Inr None) (newDevice ''A''))
       = Some TypeError
   \<and> numberCaps (fst (poll getStatus_sample (Inr stats_charging) (Inr None) (newDevice ''A'')))
       ''meter_power'' = None
   \<and> numberCaps (fst (poll getStatus_sample (Inr stats_charging) (Inr None) (newDevice ''A'')))
       ''meter_power_session'' = None"
proof -
  have a: "retrieveEnergyHistoricalTotal (Inr None) d = Inl TypeError" for d
    by (simp add: retrieveEnergyHistoricalTotal_def)
  have b: "retrieveEnergyHistoricalTotal (Inl e) d = Inl e" for d and e :: error
    by (simp add: retrieveEnergyHistoricalTotal_def)
  show ?thesis
    by (simp add: poll_no_sessions [OF _ a] poll_no_sessions [OF _ b] stats_sample_fields
        reconcile4_fields newDevice_fields)
qed

lemma second_poll_eq:
  "fst (poll getStatus_sample (Inr stats_ready) (Inr (Some sessions_ended)) device_charging)
     = reconcile11 getStatus_sample stats_ready config_sample 7 ''42'' device_charging"
  by (simp add: poll_complete [where cfg = config_sample and totalEnergy = 7 and uid = "''42''"]
      stats_sample_fields device_charging_fields total_ended)

text \<open>
  C7, as stated, fails for \<^verbatim>\<open>meter_power\<close>: after a first cycle (session energy 2,
  history 5, so \<^verbatim>\<open>meter_power\<close> holds 7) the session ends and moves into the history
  (session energy 0, history 7); the next cycle writes 7 to \<^verbatim>\<open>meter_power\<close>, which
  already holds 7.
\<close>

theorem lifetime_energy_rewritten:
  "NumberWrite ''meter_power'' 7
     \<in> set (newWrites device_charging
              (fst (poll getStatus_sample (Inr stats_ready) (Inr (Some sessions_ended))
                      device_charging)))
   \<and> holds device_charging (NumberWrite ''meter_power'' 7)"
  by (simp add: second_poll_eq newWrites_append [OF reconcile11_writes] writes9_def
      stats_sample_fields device_charging_fields)

lemma device_charging_holds:
  "booleanCaps device_charging ''locked'' = Some False"
  "stringCaps device_charging ''user_id'' = Some ''42''"
  by (simp_all add: device_charging_eq reconcile11_fields reconcile9_fields
      stats_sample_fields)

text \<open>
  C7, witness: the first cycle of a new device writes \<^verbatim>\<open>measure_power\<close> and
  \<^verbatim>\<open>meter_power\<close>; the device it leaves holds the values the differ is then given.
\<close>

theorem writes_guarded_witness:
  "NumberWrite ''measure_power'' 7000
     \<in> set (newWrites (newDevice ''A'')
              (fst (poll getStatus_sample (Inr stats_charging) (Inr (Some sessions_sample))
                      (newDevice ''A''))))
   \<and> capabilityOf (NumberWrite ''measure_power'' 7000) \<noteq> ''meter_power''
   \<and> \<not> holds (newDevice ''A'') (NumberWrite ''measure_power'' 7000)
   \<and> NumberWrite ''meter_power'' 7
     \<in> set (newWrites (newDevice ''A'')
              (fst (poll getStatus_sample (Inr stats_charging) (Inr (Some sessions_sample))
                      (newDevice ''A''))))
   \<and> added_energy stats_charging \<noteq> ToNumber (numberCaps (newDevice ''A'') ''meter_power_session'')
   \<and> holds device_charging (NumberWrite ''meter_power_session'' 2)
   \<and> whenChangedSetCapabilityValue_number ''meter_power_session'' 2 device_charging
       = device_charging
   \<and> holds device_charging (BooleanWrite ''locked'' False)
   \<and> whenChangedSetCapabilityValue_boolean ''locked'' False device_charging = device_charging
   \<and> holds device_charging (StringWrite ''user_id'' (Some ''42''))
   \<and> whenChangedSetCapabilityValue_string ''user_id'' (Some ''42'') device_charging
       = device_charging"
proof -
  let ?s' = "fst (poll getStatus_sample (Inr stats_charging) (Inr (Some sessions_sample))
                (newDevice ''A''))"
  have w: "newWrites (newDevice ''A'') ?s' = newWrites (newDevice ''A'') device_charging"
    by (simp add: device_charging_def)
  have m: "NumberWrite ''measure_power'' 7000 \<in> set (newWrites (newDevice ''A'') ?s')"
    "NumberWrite ''meter_power'' 7 \<in> set (newWrites (newDevice ''A'') ?s')"
    unfolding w by (simp_all add: first_poll_writes)
  have n: "capabilityOf (NumberWrite ''measure_power'' 7000) \<noteq> ''meter_power''"
    "capabilityOf (NumberWrite ''meter_power'' 7) = ''meter_power''"
    by simp_all
  have h: "holds device_charging (NumberWrite ''meter_power_session'' 2)"
    "holds device_charging (BooleanWrite ''locked'' False)"
    "holds device_charging (StringWrite ''user_id'' (Some ''42''))"
    by (simp_all add: device_charging_fields device_charging_holds)
  note a = writes_guarded [where s = "newDevice ''A''" and gs = getStatus_sample
      and cs = "Inr stats_charging" and ss = "Inr (Some sessions_sample)"]
  note b = writes_guarded [where s = device_charging and n = "''meter_power_session''" and x = 2]
  note c = writes_guarded [where s = device_charging and n = "''locked''" and b = False]
  note d = writes_guarded [where s = device_charging and n = "''user_id''" and y = "Some ''42''"]
  from a m(1) n(1) have 1: "\<not> holds (newDevice ''A'') (NumberWrite ''measure_power'' 7000)"
    by blast
  from a m(2) n(2) have 2: "added_energy stats_charging
      \<noteq> ToNumber (numberCaps (newDevice ''A'') ''meter_power_session'')"
    by blast
  from b h(1) have 3: "whenChangedSetCapabilityValue_number ''meter_power_session'' 2
      device_charging = device_charging"
    by blast
  from c h(2) have 4: "whenChangedSetCapabilityValue_boolean ''locked'' False
      device_charging = device_charging"
    by blast
  from d h(3) have 5: "whenChangedSetCapabilityValue_string ''user_id'' (Some ''42'')
      device_charging = device_charging"
    by blast
  from m n(1) h 1 2 3 4 5 show ?thesis by blast
qed

text \<open>
  C10, witness: the device holds session energy 2 and \<^verbatim>\<open>meter_power\<close> 7 (history 5);
  a cycle with session energy 2 and history 7 leaves \<^verbatim>\<open>meter_power\<close> at 7.
\<close>

theorem lifetime_energy_kept_witness:
  "numberCaps device_charging ''meter_power_session'' = Some (added_energy stats_charging)
   \<and> numberCaps (fst (poll getStatus_sample (Inr stats_charging) (Inr (Some sessions_ended))
                       device_charging)) ''meter_power'' = Some 7
   \<and> ''meter_power'' \<notin> capabilityOf `
        set (newWrites device_charging
              (fst (poll getStatus_sample (Inr stats_charging) (Inr (Some sessions_ended))
                      device_charging)))"
proof -
  have h: "numberCaps device_charging ''meter_power_session''
      = Some (added_energy stats_charging)"
    by (simp add: device_charging_fields stats_sample_fields)
  from lifetime_energy_kept [OF h, of getStatus_sample "Inr (Some sessions_ended)"] h
  show ?thesis by (simp add: device_charging_fields)
qed

lemma dependentObservables_append:
  "dependentObservables (xs @ ys) = dependentObservables xs @ dependentObservables ys"
  by (simp add: dependentObservables_def)

lemma names4: "dependentObservables (writes4 gs st cfg t) = []"
  by (simp add: writes4_def dependentObservables_def)

lemma names11: "dependentObservables (writes11 st uid t) = []"
  by (simp add: writes11_def dependentObservables_def)

lemma names9:
  "subseq (dependentObservables (writes9 st cfg totalEnergy t))
     [''meter_power'', ''meter_session_cost'', ''meter_power_session'']"
  by (simp add: writes9_def dependentObservables_def)

text \<open>
  C8, amended. In every cycle the three dependent capabilities are written in the order
  \<^verbatim>\<open>meter_power\<close>, \<^verbatim>\<open>meter_session_cost\<close>, \<^verbatim>\<open>meter_power_session\<close> (each only
  when its guard lets it); and when the snapshot has its \<^verbatim>\<open>config_data\<close> and the
  session list is there, the session cost held afterwards is computed from the session
  energy held before the cycle, although \<^verbatim>\<open>meter_power_session\<close> then holds the new
  one.
\<close>

theorem dependent_write_order:
  "subseq (dependentObservables (newWrites s (fst (poll gs cs ss s))))
     [''meter_power'', ''meter_session_cost'', ''meter_power_session'']
   \<and> numberCaps (fst (poll gs (Inr (st\<lparr>config_data := Some cfg\<rparr>)) (Inr (Some sessions)) s))
        ''meter_session_cost''
      = Some (if added_energy st < ToNumber (numberCaps s ''meter_power_session'')
                 \<or> added_energy st = 0
              then added_energy st * energy_price cfg
              else ToNumber (numberCaps s ''meter_session_cost'')
                   + (added_energy st - ToNumber (numberCaps s ''meter_power_session''))
                     * energy_price cfg)
   \<and> numberCaps (fst (poll gs (Inr (st\<lparr>config_data := Some cfg\<rparr>)) (Inr (Some sessions)) s))
        ''meter_power_session''
      = Some (added_energy st)"
proof (intro conjI)
  show "subseq (dependentObservables (newWrites s (fst (poll gs cs ss s))))
     [''meter_power'', ''meter_session_cost'', ''meter_power_session'']"
  proof (cases rule: poll_cases [where cs = cs and ss = ss and t = s])
    case (fetch_failed e)
    then show ?thesis by (simp add: newWrites_fetch_failed dependentObservables_def)
  next
    case (no_config st)
    then show ?thesis by (simp add: newWrites_no_config dependentObservables_def)
  next
    case (no_sessions st cfg e)
    then show ?thesis by (simp add: newWrites_no_sessions names4)
  next
    case (no_user st cfg totalEnergy)
    then show ?thesis by (simp add: newWrites_no_user dependentObservables_append names4 names9)
  next
    case (complete st cfg totalEnergy uid)
    then show ?thesis by (simp add: newWrites_complete dependentObservables_append names4 names9 names11)
  qed
next
  let ?st = "st\<lparr>config_data := Some cfg\<rparr>"
  let ?s' = "fst (poll gs (Inr ?st) (Inr (Some sessions)) s)"
  have "numberCaps ?s' ''meter_session_cost''
      = Some (sessionCost (added_energy st) (numberCaps s ''meter_power_session'')
                (energy_price cfg) (numberCaps s ''meter_session_cost''))
    \<and> numberCaps ?s' ''meter_power_session'' = Some (added_energy st)"
  proof (cases "user_id st")
    case None
    then show ?thesis
      using poll_no_user [where st = ?st and cfg = cfg and ss = "Inr (Some sessions)"
          and t = s and gs = gs, OF _ historical_total]
      by (simp add: reconcile9_fields)
  next
    case (Some uid)
    then show ?thesis
      using poll_complete [where st = ?st and cfg = cfg and ss = "Inr (Some sessions)"
          and t = s and gs = gs and uid = uid, OF _ historical_total]
      by (simp add: reconcile11_fields reconcile9_fields)
  qed
  then show "numberCaps ?s' ''meter_session_cost''
      = Some (if added_energy st < ToNumber (numberCaps s ''meter_power_session'')
                 \<or> added_energy st = 0
              then added_energy st * energy_price cfg
              else ToNumber (numberCaps s ''meter_session_cost'')
                   + (added_energy st - ToNumber (numberCaps s ''meter_power_session''))
                     * energy_price cfg)"
    and "numberCaps ?s' ''meter_power_session'' = Some (added_energy st)"
    by (simp_all add: sessionCost_def)
qed

text \<open>
  C8, as stated, fails: the first cycle of a new device writes the three in the order
  \<^verbatim>\<open>meter_power\<close>, \<^verbatim>\<open>meter_session_cost\<close>, \<^verbatim>\<open>meter_power_session\<close>, not in
  the order session energy, session cost, lifetime energy.
\<close>

theorem dependent_write_order_counterexample:
  "dependentObservables
     (newWrites (newDevice ''A'')
        (fst (poll getStatus_sample (Inr stats_charging) (Inr (Some sessions_sample))
                (newDevice ''A''))))
   = [''meter_power'', ''meter_session_cost'', ''meter_power_session'']
   \<and> \<not> subseq
        (dependentObservables
           (newWrites (newDevice ''A'')
              (fst (poll getStatus_sample (Inr stats_charging) (Inr (Some sessions_sample))
                      (newDevice ''A'')))))
        [''meter_power_session'', ''meter_session_cost'', ''meter_power'']"
proof -
  have w: "newWrites (newDevice ''A'')
      (fst (poll getStatus_sample (Inr stats_charging) (Inr (Some sessions_sample))
              (newDevice ''A'')))
    = newWrites (newDevice ''A'') device_charging"
    by (simp add: device_charging_def)
  show ?thesis
    unfolding w by (simp add: first_poll_writes dependentObservables_def)
qed

section \<open>The scheduler\<close>

lemma setup_state:
  "setupDevicePollingAndDoFirstPoll settingsAtOnce (newScheduler p)
     = \<lparr>setting_polling = getSetting_polling settingsAtOnce p, polling = Some 0,
        timers = [(0, timerDelay (map_option (\<lambda>p. 1000 * p)
                                   (getSetting_polling settingsAtOnce p)), 0)],
        nextHandle = 1, pollCalls = 1\<rparr>"
  by (simp add: setupDevicePollingAndDoFirstPoll_def newScheduler_def setInterval_def
      callPoll_def Let_def)

lemma onSettings_pollCalls: "pollCalls (onSettings q sch) = pollCalls sch"
  by (simp add: onSettings_def setInterval_def clearTimeout_def Let_def)

text \<open>
  While the device keeps the handle of the only timer, a change of the settings leaves
  only the new timer, and the device keeps its handle.
\<close>

lemma onSettings_single:
  assumes "timers sch = [(h, period, since)]" "polling sch = Some h"
  shows "timers (onSettings q sch) = [(nextHandle sch, timerDelay (Some (1000 * q)), 0)]
    \<and> polling (onSettings q sch) = Some (nextHandle sch)"
  using assms by (simp add: onSettings_def setInterval_def clearTimeout_def Let_def)

lemma elapse_single:
  assumes "timers sch = [(h, period, since)]" "polling sch = Some h"
  shows "timers (elapse d sch) = [(h, period, (since + d) mod period)]
    \<and> polling (elapse d sch) = Some h
    \<and> pollCalls (elapse d sch) = pollCalls sch + (since + d) div period"
  using assms by (simp add: elapse_def)

lemma run_single:
  assumes "timers sch = [(h, period, since)]" "polling sch = Some h"
  shows "pollCalls (run es sch) = pollCalls sch + ticks period since es
    \<and> (\<exists>h' since'. timers (run es sch) = [(h', lastPeriod period es, since')]
          \<and> polling (run es sch) = Some h')"
  using assms
proof (induction es arbitrary: sch h period since)
  case Nil
  then show ?case by simp
next
  case (Cons e es)
  show ?case
  proof (cases e)
    case (Elapse d)
    from elapse_single [OF Cons.prems, of d]
    have t: "timers (elapse d sch) = [(h, period, (since + d) mod period)]"
      and p: "polling (elapse d sch) = Some h"
      and c: "pollCalls (elapse d sch) = pollCalls sch + (since + d) div period"
      by simp_all
    from Cons.IH [OF t p] c Elapse show ?thesis by simp
  next
    case (Settings q)
    from onSettings_single [OF Cons.prems, of q]
    have t: "timers (onSettings q sch) = [(nextHandle sch, timerDelay (Some (1000 * q)), 0)]"
      and p: "polling (onSettings q sch) = Some (nextHandle sch)"
      by simp_all
    from Cons.IH [OF t p] Settings show ?thesis by (simp add: onSettings_pollCalls)
  qed
qed

text \<open>
  C9. For every value of the setting \<^verbatim>\<open>polling\<close>, set or not, and either behaviour of
  the host on the un-awaited \<^verbatim>\<open>setSettings\<close>: starting calls the cycle exactly once
  and leaves exactly one interval timer, of the period made from the setting the code reads
  back; \<^verbatim>\<open>onSettings\<close> calls no cycle, in any state; and after any sequence of time
  passing and changes of the settings, however many, the cycle has been called once at the
  start plus once per full period of the timer in force (a change restarting the period
  and adding no call), exactly one timer is left, it has the period set last, and the
  device keeps its handle.
\<close>

theorem scheduler_cycles:
  "pollCalls (setupDevicePollingAndDoFirstPoll settingsAtOnce (newScheduler p)) = 1
   \<and> timers (setupDevicePollingAndDoFirstPoll settingsAtOnce (newScheduler p))
       = [(0, timerDelay (map_option (\<lambda>p. 1000 * p) (getSetting_polling settingsAtOnce p)), 0)]
   \<and> pollCalls (onSettings q sch) = pollCalls sch
   \<and> pollCalls (run es (setupDevicePollingAndDoFirstPoll settingsAtOnce (newScheduler p)))
       = 1 + ticks (timerDelay (map_option (\<lambda>p. 1000 * p)
                                  (getSetting_polling settingsAtOnce p))) 0 es
   \<and> (\<exists>h since.
         timers (run es (setupDevicePollingAndDoFirstPoll settingsAtOnce (newScheduler p)))
           = [(h, lastPeriod (timerDelay (map_option (\<lambda>p. 1000 * p)
                                            (getSetting_polling settingsAtOnce p))) es, since)]
         \<and> polling (run es (setupDevicePollingAndDoFirstPoll settingsAtOnce (newScheduler p)))
             = Some h)"
proof -
  let ?start = "setupDevicePollingAndDoFirstPoll settingsAtOnce (newScheduler p)"
  let ?period = "timerDelay (map_option (\<lambda>p. 1000 * p) (getSetting_polling settingsAtOnce p))"
  have t: "timers ?start = [(0, ?period, 0)]" and h: "polling ?start = Some 0"
    and c: "pollCalls ?start = 1"
    by (simp_all add: setup_state)
  from run_single [OF t h, of es] c t show ?thesis
    by (simp add: onSettings_pollCalls)
qed

text \<open>
  C9, witness: with 10 s set, 25 s pass (2 ticks), 5 s is set, 12 s pass (2 ticks), 7 s is
  set, 15 s pass (2 ticks): 7 calls and one timer, of 7 s. With nothing set, the timer of
  the start has the default 10 s when the host stores the setting at once, and 1 ms when
  it does not.
\<close>

theorem scheduler_cycles_witness:
  "pollCalls (setupDevicePollingAndDoFirstPoll True (newScheduler (Some 10))) = 1
   \<and> pollCalls (onSettings 5 (newScheduler None)) = 0
   \<and> pollCalls (run [Elapse 25000, Settings 5, Elapse 12000, Settings 7, Elapse 15000]
        (setupDevicePollingAndDoFirstPoll True (newScheduler (Some 10)))) = 7
   \<and> map (\<lambda>(h, period, since). period)
        (timers (run [Elapse 25000, Settings 5, Elapse 12000, Settings 7, Elapse 15000]
           (setupDevicePollingAndDoFirstPoll True (newScheduler (Some 10))))) = [7000]
   \<and> timers (setupDevicePollingAndDoFirstPoll True (newScheduler None)) = [(0, 10000, 0)]
   \<and> timers (setupDevicePollingAndDoFirstPoll False (newScheduler None)) = [(0, 1, 0)]"
  using scheduler_cycles [of True "Some 10" 5 "newScheduler None"
      "[Elapse 25000, Settings 5, Elapse 12000, Settings 7, Elapse 15000]"]
    scheduler_cycles [of True None 5 "newScheduler None" "[]"]
    scheduler_cycles [of False None 5 "newScheduler None" "[]"]
  by (auto simp add: getSetting_polling_def POLL_INTERVAL_def newScheduler_def)

end
